theory Spec2Isabelle
  imports Main "HOL-Library.Sublist"
begin

section \<open>Python values as they come out of the JSON decoder\<close>

text \<open>
  \<^verbatim>\<open>run_flow.py\<close> works on the values that \<^verbatim>\<open>json.load\<close> produces: \<^verbatim>\<open>None\<close>,
  booleans, integers, floats, strings, lists and dictionaries with string keys.
  A dictionary is an association list in insertion order (the order Python
  iterates in); a lookup takes the first binding of a key.  A float is
  represented by its \<^verbatim>\<open>repr\<close>, which determines it (\<^verbatim>\<open>''1.5''\<close>, \<^verbatim>\<open>''0.0''\<close>).
  Strings are byte strings; the development is exact for ASCII text.
\<close>

datatype json =
    JNull
  | JBool bool
  | JInt int
  | JFloat string
  | JStr string
  | JList "json list"
  | JDict "(string \<times> json) list"

text \<open>Python's truth value of an object, as used by \<^verbatim>\<open>if x:\<close> and \<^verbatim>\<open>x or y\<close>.\<close>

fun truthy :: "json \<Rightarrow> bool" where
  "truthy JNull = False"
| "truthy (JBool b) = b"
| "truthy (JInt i) = (i \<noteq> 0)"
| "truthy (JFloat r) = (r \<noteq> ''0.0'' \<and> r \<noteq> ''-0.0'')"
| "truthy (JStr s) = (s \<noteq> [])"
| "truthy (JList xs) = (xs \<noteq> [])"
| "truthy (JDict kvs) = (kvs \<noteq> [])"

text \<open>\<^verbatim>\<open>type(x).__name__\<close>\<close>

fun type_name :: "json \<Rightarrow> string" where
  "type_name JNull = ''NoneType''"
| "type_name (JBool b) = ''bool''"
| "type_name (JInt i) = ''int''"
| "type_name (JFloat r) = ''float''"
| "type_name (JStr s) = ''str''"
| "type_name (JList xs) = ''list''"
| "type_name (JDict kvs) = ''dict''"

text \<open>\<^verbatim>\<open>d.get(k)\<close> (a missing key gives \<^verbatim>\<open>None\<close>) and \<^verbatim>\<open>d.get(k, default)\<close>.\<close>

definition dict_get :: "(string \<times> json) list \<Rightarrow> string \<Rightarrow> json" where
  "dict_get kvs k = (case map_of kvs k of None \<Rightarrow> JNull | Some v \<Rightarrow> v)"

definition dict_get_default :: "(string \<times> json) list \<Rightarrow> string \<Rightarrow> json \<Rightarrow> json" where
  "dict_get_default kvs k d = (case map_of kvs k of None \<Rightarrow> d | Some v \<Rightarrow> v)"

text \<open>\<^verbatim>\<open>k in d\<close> for a dictionary \<^verbatim>\<open>d\<close>.\<close>

definition has_key :: "(string \<times> json) list \<Rightarrow> string \<Rightarrow> bool" where
  "has_key kvs k = (map_of kvs k \<noteq> None)"

subsection \<open>\<^verbatim>\<open>str\<close> and \<^verbatim>\<open>repr\<close>\<close>

definition digit_char :: "nat \<Rightarrow> char" where
  "digit_char d = ''0123456789abcdef'' ! d"

fun str_nat :: "nat \<Rightarrow> string" where
  "str_nat n = (if n < 10 then [digit_char n] else str_nat (n div 10) @ [digit_char (n mod 10)])"

declare str_nat.simps [simp del]

definition str_int :: "int \<Rightarrow> string" where
  "str_int i = (if i < 0 then CHR ''-'' # str_nat (nat (- i)) else str_nat (nat i))"

text \<open>
  \<^verbatim>\<open>repr\<close> of a string: single quotes unless the string holds a single quote and
  no double quote; the quote and the backslash are escaped, tab, newline and
  carriage return are written \<^verbatim>\<open>\t \n \r\<close>, other control characters as
  \<^verbatim>\<open>\xhh\<close>.
\<close>

definition repr_char :: "char \<Rightarrow> char \<Rightarrow> string" where
  "repr_char q c =
     (if c = q \<or> c = CHR 0x5C then [CHR 0x5C, c]
      else if c = CHR 0x09 then [CHR 0x5C, CHR ''t'']
      else if c = CHR 0x0A then [CHR 0x5C, CHR ''n'']
      else if c = CHR 0x0D then [CHR 0x5C, CHR ''r'']
      else if (of_char c :: nat) < 32 \<or> (of_char c :: nat) = 127
        then [CHR 0x5C, CHR ''x'', digit_char ((of_char c :: nat) div 16),
              digit_char ((of_char c :: nat) mod 16)]
      else [c])"

definition repr_str :: "string \<Rightarrow> string" where
  "repr_str s =
     (let q = (if CHR 0x27 \<in> set s \<and> CHR 0x22 \<notin> set s then CHR 0x22 else CHR 0x27)
      in q # concat (map (repr_char q) s) @ [q])"

text \<open>\<^verbatim>\<open>', '.join(parts)\<close>\<close>

fun join_comma :: "string list \<Rightarrow> string" where
  "join_comma [] = []"
| "join_comma [x] = x"
| "join_comma (x # y # ys) = x @ '', '' @ join_comma (y # ys)"

fun py_repr :: "json \<Rightarrow> string" where
  "py_repr JNull = ''None''"
| "py_repr (JBool b) = (if b then ''True'' else ''False'')"
| "py_repr (JInt i) = str_int i"
| "py_repr (JFloat r) = r"
| "py_repr (JStr s) = repr_str s"
| "py_repr (JList xs) = ''['' @ join_comma (map py_repr xs) @ '']''"
| "py_repr (JDict kvs) =
     ''{'' @ join_comma (map (\<lambda>(k, v). repr_str k @ '': '' @ py_repr v) kvs) @ ''}''"

text \<open>\<^verbatim>\<open>str(x)\<close>: a string is itself, everything else prints as its \<^verbatim>\<open>repr\<close>.\<close>

definition py_str :: "json \<Rightarrow> string" where
  "py_str v = (case v of JStr s \<Rightarrow> s | _ \<Rightarrow> py_repr v)"

subsection \<open>\<^verbatim>\<open>str.startswith\<close>, \<^verbatim>\<open>in\<close> and \<^verbatim>\<open>str.replace\<close>\<close>

text \<open>
  \<^verbatim>\<open>s.startswith(p)\<close> is \<^term>\<open>prefix p s\<close> and \<^verbatim>\<open>p in s\<close> on strings is
  \<^term>\<open>sublist p s\<close> (a contiguous occurrence); both are executable.

  \<^verbatim>\<open>s.replace(old, new)\<close> replaces the non-overlapping occurrences of \<^verbatim>\<open>old\<close>,
  found from left to right; with an empty \<^verbatim>\<open>old\<close> it puts \<^verbatim>\<open>new\<close> before every
  character and at the end.
\<close>

function replace_scan :: "string \<Rightarrow> string \<Rightarrow> string \<Rightarrow> string" where
  "replace_scan old new [] = []"
| "replace_scan old new (c # cs) =
     (if old \<noteq> [] \<and> prefix old (c # cs)
      then new @ replace_scan old new (drop (length old) (c # cs))
      else c # replace_scan old new cs)"
  by pat_completeness auto
termination
  by (relation "measure (\<lambda>(old, new, s). length s)") auto

definition py_replace :: "string \<Rightarrow> string \<Rightarrow> string \<Rightarrow> string" where
  "py_replace s old new =
     (if old = [] then new @ concat (map (\<lambda>c. c # new) s) else replace_scan old new s)"

section \<open>Exceptions and files\<close>

text \<open>
  Every \<^verbatim>\<open>raise\<close> of the program and every exception of the interpreter that
  the program can meet is a value.  \<^verbatim>\<open>ValueError\<close> and \<^verbatim>\<open>Exception\<close> carry the
  message the program gives them, \<^verbatim>\<open>AttributeError\<close> the type and the attribute
  that was missing, \<^verbatim>\<open>KeyError\<close> the key, \<^verbatim>\<open>FileNotFoundError\<close> the path.
  \<^verbatim>\<open>UnicodeDecodeError\<close> is what reading a file in text mode raises on bytes that
  are not text in the encoding of \<^verbatim>\<open>open\<close>; it is a \<^verbatim>\<open>ValueError\<close> of the
  interpreter, and not a \<^verbatim>\<open>JSONDecodeError\<close>.
\<close>

datatype exn =
    ValueError string
  | Exception string
  | FileNotFoundError string
  | JSONDecodeError
  | AttributeError string string
  | KeyError string
  | TypeError
  | UnicodeDecodeError

text \<open>
  A file is seen through \<^verbatim>\<open>json.load\<close> on the file opened in text mode: its
  bytes are not text (\<^verbatim>\<open>UnicodeDecodeError\<close>), or they are text that is not JSON
  (\<^verbatim>\<open>JSONDecodeError\<close>), or they are the text of a value; \<^verbatim>\<open>json.dump\<close> writes a
  text that decodes to the value dumped.  The file system maps the paths that exist
  to their files.
\<close>

datatype file_content = Undecodable | Unparsable | Parsed json

type_synonym fs = "string \<rightharpoonup> file_content"

fun is_list :: "json \<Rightarrow> bool" where
  "is_list (JList xs) = True"
| "is_list _ = False"

fun is_dict :: "json \<Rightarrow> bool" where
  "is_dict (JDict kvs) = True"
| "is_dict _ = False"

section \<open>\<^verbatim>\<open>load_workflow\<close>\<close>

definition sq :: string where
  "sq = [CHR 0x27]"

definition keys_repr :: "(string \<times> json) list \<Rightarrow> string" where
  "keys_repr kvs = py_repr (JList (map (\<lambda>(k, v). JStr k) kvs))"

definition not_lists_msg :: "string \<Rightarrow> json \<Rightarrow> json \<Rightarrow> string" where
  "not_lists_msg head ns es =
     head @ '' Nodes type: '' @ type_name ns @ '', Edges type: '' @ type_name es"

definition no_format_msg :: string where
  "no_format_msg =
     ''Workflow must be a dictionary containing '' @ sq @ ''data.nodes'' @ sq @ ''/'' @ sq
     @ ''data.edges'' @ sq @ '' or root level '' @ sq @ ''nodes'' @ sq @ ''/'' @ sq @ ''edges''
     @ sq @ '' as lists.''"

text \<open>
  The body of \<^verbatim>\<open>load_workflow\<close> once the file has been decoded (lines 43 to 84).
  The nested form builds a new dictionary of the two lists; the flat form
  returns the decoded root object itself.
\<close>

definition load_workflow_json :: "json \<Rightarrow> exn + json" where
  "load_workflow_json flow =
     (case flow of
        JDict root \<Rightarrow>
          if has_key root ''data'' then
            (case dict_get root ''data'' of
               JDict d \<Rightarrow>
                 if has_key d ''nodes'' \<and> has_key d ''edges'' then
                   (if is_list (dict_get d ''nodes'') \<and> is_list (dict_get d ''edges'')
                    then Inr (JDict [(''nodes'', dict_get d ''nodes''),
                                     (''edges'', dict_get d ''edges'')])
                    else Inl (ValueError (not_lists_msg
                           ''Workflow data has nodes/edges but they are not lists.''
                           (dict_get d ''nodes'') (dict_get d ''edges''))))
                 else Inl (ValueError
                        (''Workflow data missing required keys ('' @ sq @ ''nodes'' @ sq
                         @ '' or '' @ sq @ ''edges'' @ sq @ '') under '' @ sq @ ''data'' @ sq
                         @ ''. Found keys: '' @ keys_repr d))
             | other \<Rightarrow>
                 Inl (ValueError
                   (''Workflow has '' @ sq @ ''data'' @ sq
                    @ '' key, but its content is not a dictionary. Type: '' @ type_name other)))
          else if has_key root ''nodes'' \<and> has_key root ''edges'' then
            (if is_list (dict_get root ''nodes'') \<and> is_list (dict_get root ''edges'')
             then Inr flow
             else Inl (ValueError (not_lists_msg
                    ''Workflow has root level nodes/edges but they are not lists.''
                    (dict_get root ''nodes'') (dict_get root ''edges''))))
          else Inl (ValueError no_format_msg)
      | _ \<Rightarrow> Inl (ValueError no_format_msg))"

definition load_workflow :: "fs \<Rightarrow> string \<Rightarrow> exn + json" where
  "load_workflow files path =
     (case files path of
        None \<Rightarrow> Inl (FileNotFoundError path)
      | Some Undecodable \<Rightarrow> Inl UnicodeDecodeError
      | Some Unparsable \<Rightarrow> Inl JSONDecodeError
      | Some (Parsed flow) \<Rightarrow> load_workflow_json flow)"

section \<open>\<^verbatim>\<open>extract_prompt\<close>\<close>

text \<open>
  The substitution loop (lines 115 to 118 and 152 to 155): for every item of the
  payload, in order, \<^verbatim>\<open>processed_template.replace('{' + key + '}', str(value))\<close>.
  A template that is not a string has no \<^verbatim>\<open>replace\<close>.
\<close>

fun substitute :: "json \<Rightarrow> (string \<times> json) list \<Rightarrow> exn + json" where
  "substitute t [] = Inr t"
| "substitute t ((k, v) # items) =
     (case t of
        JStr s \<Rightarrow> substitute (JStr (py_replace s (''{'' @ k @ ''}'') (py_str v))) items
      | _ \<Rightarrow> Inl (AttributeError (type_name t) ''replace''))"

definition process_template :: "json \<Rightarrow> json \<Rightarrow> exn + json" where
  "process_template template input_data =
     (case input_data of
        JDict items \<Rightarrow> substitute template items
      | _ \<Rightarrow> Inr template)"

text \<open>
  \<^verbatim>\<open>'input' in x\<close> and \<^verbatim>\<open>x['input']\<close> for the value \<^verbatim>\<open>x\<close> under a node's
  \<^verbatim>\<open>'data'\<close> key: a dictionary is searched by key, a string for the substring,
  a list for an equal element, anything else is not iterable; only a dictionary
  can be indexed by a string.
\<close>

fun contains_input :: "json \<Rightarrow> exn + bool" where
  "contains_input (JDict d) = Inr (has_key d ''input'')"
| "contains_input (JStr s) = Inr (sublist ''input'' s)"
| "contains_input (JList xs) = Inr (JStr ''input'' \<in> set xs)"
| "contains_input _ = Inl TypeError"

fun subscript :: "json \<Rightarrow> string \<Rightarrow> exn + json" where
  "subscript (JDict d) k =
     (case map_of d k of None \<Rightarrow> Inl (KeyError k) | Some v \<Rightarrow> Inr v)"
| "subscript _ k = Inl TypeError"

text \<open>
  The test of line 111 on a node that is a dictionary:
  \<^verbatim>\<open>node.get('type') == 'InputNode' and 'data' in node and 'input' in node['data']\<close>.
\<close>

definition is_input_node :: "(string \<times> json) list \<Rightarrow> exn + bool" where
  "is_input_node node =
     (if dict_get node ''type'' = JStr ''InputNode'' \<and> has_key node ''data''
      then contains_input (dict_get node ''data'')
      else Inr False)"

text \<open>
  The first loop (lines 108 to 119): nodes that are not dictionaries are
  skipped; the first node that passes the test decides.  \<open>None\<close> stands for the
  loop running to its end.
\<close>

fun input_node_loop :: "json list \<Rightarrow> json \<Rightarrow> exn + json option" where
  "input_node_loop [] input_data = Inr None"
| "input_node_loop (node # nodes) input_data =
     (case node of
        JDict kvs \<Rightarrow>
          (case is_input_node kvs of
             Inl e \<Rightarrow> Inl e
           | Inr True \<Rightarrow>
               (case subscript (dict_get kvs ''data'') ''input'' of
                  Inl e \<Rightarrow> Inl e
                | Inr template \<Rightarrow>
                    (case process_template template input_data of
                       Inl e \<Rightarrow> Inl e
                     | Inr r \<Rightarrow> Inr (Some r)))
           | Inr False \<Rightarrow> input_node_loop nodes input_data)
      | _ \<Rightarrow> input_node_loop nodes input_data)"

text \<open>
  \<^verbatim>\<open>node.get(k) or node.get('data', {}).get(k)\<close> (lines 125, 126, 135, 136): the
  top-level value when it is true, otherwise the value under \<^verbatim>\<open>'data'\<close>.  A node
  that is not a dictionary has no \<^verbatim>\<open>get\<close>, nor has a \<^verbatim>\<open>'data'\<close> value that is
  not one.
\<close>

definition node_field :: "string \<Rightarrow> json \<Rightarrow> exn + json" where
  "node_field k node =
     (case node of
        JDict kvs \<Rightarrow>
          if truthy (dict_get kvs k) then Inr (dict_get kvs k)
          else (case dict_get_default kvs ''data'' (JDict []) of
                  JDict d \<Rightarrow> Inr (dict_get d k)
                | other \<Rightarrow> Inl (AttributeError (type_name other) ''get''))
      | other \<Rightarrow> Inl (AttributeError (type_name other) ''get''))"

text \<open>
  The test of lines 127 and 137 for the name \<open>pat\<close> (\<^verbatim>\<open>'ChatInput'\<close> or
  \<^verbatim>\<open>'Prompt'\<close>):
  \<^verbatim>\<open>(node_id and str(node_id).startswith(pat)) or (node_type and pat in str(node_type))\<close>.
\<close>

definition name_test :: "string \<Rightarrow> json \<Rightarrow> json \<Rightarrow> bool" where
  "name_test pat node_id node_type =
     ((truthy node_id \<and> prefix pat (py_str node_id))
      \<or> (truthy node_type \<and> sublist pat (py_str node_type)))"

text \<open>
  The second loop (lines 123 to 130) gives \<^verbatim>\<open>chat_input_id\<close>: the identifier of
  the first node that passes the test, \<^verbatim>\<open>None\<close> when there is none.
\<close>

fun find_chat_input :: "json list \<Rightarrow> exn + json" where
  "find_chat_input [] = Inr JNull"
| "find_chat_input (node # nodes) =
     (case node_field ''id'' node of
        Inl e \<Rightarrow> Inl e
      | Inr node_id \<Rightarrow>
          (case node_field ''type'' node of
             Inl e \<Rightarrow> Inl e
           | Inr node_type \<Rightarrow>
               if name_test ''ChatInput'' node_id node_type then Inr node_id
               else find_chat_input nodes))"

text \<open>The third loop (lines 133 to 139) gives \<^verbatim>\<open>prompt_node\<close>.\<close>

fun find_prompt_node :: "json list \<Rightarrow> exn + json" where
  "find_prompt_node [] = Inr JNull"
| "find_prompt_node (node # nodes) =
     (case node_field ''id'' node of
        Inl e \<Rightarrow> Inl e
      | Inr node_id \<Rightarrow>
          (case node_field ''type'' node of
             Inl e \<Rightarrow> Inl e
           | Inr node_type \<Rightarrow>
               if name_test ''Prompt'' node_id node_type then Inr node
               else find_prompt_node nodes))"

text \<open>
  Lines 144 to 148.  Any exception on the path
  \<^verbatim>\<open>prompt_node['data']['node']['template']['value']\<close> leads to the fallback
  \<^verbatim>\<open>prompt_node.get('data', {}).get('template', {}).get('value')\<close>, whose own
  exceptions are not caught.
\<close>

definition get_or_empty :: "json \<Rightarrow> string \<Rightarrow> exn + json" where
  "get_or_empty x k =
     (case x of
        JDict d \<Rightarrow> Inr (dict_get_default d k (JDict []))
      | other \<Rightarrow> Inl (AttributeError (type_name other) ''get''))"

definition get_value :: "json \<Rightarrow> string \<Rightarrow> exn + json" where
  "get_value x k =
     (case x of
        JDict d \<Rightarrow> Inr (dict_get d k)
      | other \<Rightarrow> Inl (AttributeError (type_name other) ''get''))"

definition prompt_template :: "json \<Rightarrow> exn + json" where
  "prompt_template prompt_node =
     (case (case subscript prompt_node ''data'' of
              Inl e \<Rightarrow> Inl e
            | Inr a \<Rightarrow>
                (case subscript a ''node'' of
                   Inl e \<Rightarrow> Inl e
                 | Inr b \<Rightarrow>
                     (case subscript b ''template'' of
                        Inl e \<Rightarrow> Inl e
                      | Inr c \<Rightarrow> subscript c ''value''))) of
        Inr template \<Rightarrow> Inr template
      | Inl e \<Rightarrow>
          (case get_or_empty prompt_node ''data'' of
             Inl e \<Rightarrow> Inl e
           | Inr a \<Rightarrow>
               (case get_or_empty a ''template'' of
                  Inl e \<Rightarrow> Inl e
                | Inr b \<Rightarrow> get_value b ''value'')))"

definition not_found_msg :: string where
  "not_found_msg = ''Input node with expected structure not found in flow nodes.''"

text \<open>Lines 121 to 162: the ChatInput and Prompt pair, then the final \<^verbatim>\<open>raise\<close>.\<close>

definition langflow_prompt :: "json list \<Rightarrow> json \<Rightarrow> exn + json" where
  "langflow_prompt nodes input_data =
     (case find_chat_input nodes of
        Inl e \<Rightarrow> Inl e
      | Inr chat_input_id \<Rightarrow>
          if truthy chat_input_id then
            (case find_prompt_node nodes of
               Inl e \<Rightarrow> Inl e
             | Inr prompt_node \<Rightarrow>
                 if truthy prompt_node then
                   (case prompt_template prompt_node of
                      Inl e \<Rightarrow> Inl e
                    | Inr template \<Rightarrow>
                        if truthy template then process_template template input_data
                        else Inl (ValueError not_found_msg))
                 else Inl (ValueError not_found_msg))
          else Inl (ValueError not_found_msg))"

definition invalid_flow_msg :: string where
  "invalid_flow_msg =
     ''Invalid flow structure passed to extract_prompt: Missing or invalid '' @ sq @ ''nodes''
     @ sq @ '' key.''"

definition extract_prompt :: "json \<Rightarrow> json \<Rightarrow> exn + json" where
  "extract_prompt flow input_data =
     (case flow of
        JDict kvs \<Rightarrow>
          (case map_of kvs ''nodes'' of
             Some (JList nodes) \<Rightarrow>
               (case input_node_loop nodes input_data of
                  Inl e \<Rightarrow> Inl e
                | Inr (Some r) \<Rightarrow> Inr r
                | Inr None \<Rightarrow> langflow_prompt nodes input_data)
           | _ \<Rightarrow> Inl (ValueError invalid_flow_msg))
      | _ \<Rightarrow> Inl (ValueError invalid_flow_msg))"

section \<open>\<^verbatim>\<open>run_ollama\<close>\<close>

text \<open>
  The backend is a function from the request sent to what \<^verbatim>\<open>requests.post\<close>
  does with it: it raises a \<^verbatim>\<open>RequestException\<close> (given by its text), or it
  returns a response with a status code, a body text and the outcome of
  \<^verbatim>\<open>response.json()\<close>, which is the decoded body or, on a body that is not
  JSON, the text of the \<^verbatim>\<open>requests.exceptions.JSONDecodeError\<close> raised (a
  \<^verbatim>\<open>RequestException\<close> as well).  The lines written to the execution's log file
  are left out.
\<close>

record request =
  req_url :: string
  req_json :: json
  req_timeout :: nat

datatype http_result =
    RequestException string
  | Response int string "string + json"



section \<open>\<^verbatim>\<open>append_execution_log\<close>\<close>


section \<open>\<^verbatim>\<open>main\<close>\<close>

text \<open>
  What the run depends on outside the program: the file system, the environment,
  the backend, the identifier \<^verbatim>\<open>uuid4\<close> draws and the two clock readings (in
  microseconds) taken at lines 262 and 297 or 317.
\<close>

record world =
  files :: fs
  environ :: "string \<rightharpoonup> string"
  backend :: "request \<Rightarrow> http_result"
  uuid :: string
  start_clock :: int
  end_clock :: int

text \<open>
  Library functions of which only the result matters here: \<^verbatim>\<open>json.loads\<close> on the
  inline argument (\<open>None\<close> when it raises \<^verbatim>\<open>JSONDecodeError\<close>), \<^verbatim>\<open>str(e)\<close> of an
  exception, \<^verbatim>\<open>isoformat\<close> of a clock reading, and the float that
  \<^verbatim>\<open>total_seconds\<close> makes of a difference in microseconds.
\<close>

record python =
  json_loads :: "string \<Rightarrow> json option"
  exn_str :: "exn \<Rightarrow> string"
  isoformat :: "int \<Rightarrow> string"
  total_seconds :: "int \<Rightarrow> string"





definition basename :: "string \<Rightarrow> string" where
  "basename p = rev (takeWhile (\<lambda>c. c \<noteq> CHR ''/'') (rev p))"


text \<open>Line 260.\<close>

definition flow_name_of :: "string \<Rightarrow> string" where
  "flow_name_of flow_path = py_replace (basename flow_path) ''.json'' []"

text \<open>The dictionaries of lines 304 to 313 and 319 to 328.\<close>

definition execution_log ::
  "python \<Rightarrow> world \<Rightarrow> string \<Rightarrow> json \<Rightarrow> string \<Rightarrow> json \<Rightarrow> string \<Rightarrow> json"
where
  "execution_log py w flow_name input_data status output err =
     JDict [(''id'', JStr (uuid w)),
            (''flow'', JStr flow_name),
            (''status'', JStr status),
            (''input'', input_data),
            (''output'', output),
            (''error'', JStr err),
            (''startTime'', JStr (isoformat py (start_clock w))),
            (''duration'', JFloat (total_seconds py (end_clock w - start_clock w)))]"





section \<open>Notions of the specification\<close>

text \<open>
  A node of the data model: a mapping whose \<^verbatim>\<open>data\<close> entry, when it has one, is a
  mapping.
\<close>

definition wf_node :: "json \<Rightarrow> bool" where
  "wf_node n =
     (case n of
        JDict kvs \<Rightarrow> (case map_of kvs ''data'' of None \<Rightarrow> True | Some d \<Rightarrow> is_dict d)
      | _ \<Rightarrow> False)"

text \<open>
  Strategy A in the words of the specification: a node whose type discriminator
  equals \<^verbatim>\<open>InputNode\<close> and whose \<^verbatim>\<open>data\<close> mapping contains an \<^verbatim>\<open>input\<close> field
  offers that field's value as the template.
\<close>

definition strategy_a_template :: "json \<Rightarrow> json option" where
  "strategy_a_template n =
     (case n of
        JDict kvs \<Rightarrow>
          if map_of kvs ''type'' = Some (JStr ''InputNode'') then
            (case map_of kvs ''data'' of Some (JDict d) \<Rightarrow> map_of d ''input'' | _ \<Rightarrow> None)
          else None
      | _ \<Rightarrow> None)"

text \<open>
  Placeholder substitution in the words of the specification: one working
  string, and for each pair of the payload, in order, every occurrence of
  \<^verbatim>\<open>{key}\<close> in it replaced by the value's string representation.
\<close>

definition substituted :: "string \<Rightarrow> (string \<times> json) list \<Rightarrow> string" where
  "substituted t items = fold (\<lambda>(k, v) s. py_replace s (''{'' @ k @ ''}'') (py_str v)) items t"

text \<open>
  The identifier (\<open>k = ''id''\<close>) or type discriminator (\<open>k = ''type''\<close>) that the
  search of Strategy B reads off a node: the top-level entry when it is present
  and not empty, and otherwise the entry of the node's \<^verbatim>\<open>data\<close> mapping.
\<close>

definition effective_field :: "(string \<times> json) list \<Rightarrow> string \<Rightarrow> json" where
  "effective_field kvs k =
     (if truthy (dict_get kvs k) then dict_get kvs k
      else (case map_of kvs ''data'' of Some (JDict d) \<Rightarrow> dict_get d k | _ \<Rightarrow> JNull))"

text \<open>
  A node answers the search for \<open>pat\<close> when its identifier starts with \<open>pat\<close> or
  its type discriminator contains \<open>pat\<close>.
\<close>

definition search_match :: "string \<Rightarrow> json \<Rightarrow> bool" where
  "search_match pat n =
     (case n of
        JDict kvs \<Rightarrow>
          (truthy (effective_field kvs ''id'') \<and> prefix pat (py_str (effective_field kvs ''id'')))
          \<or> (truthy (effective_field kvs ''type'')
              \<and> sublist pat (py_str (effective_field kvs ''type'')))
      | _ \<Rightarrow> False)"




text \<open>
  The number that a string of decimal digits denotes.
\<close>

definition decimal_value :: "string \<Rightarrow> nat" where
  "decimal_value s = foldl (\<lambda>a c. 10 * a + (of_char c - 48)) 0 s"

section \<open>Example workflows\<close>

definition demo_input_node :: json where
  "demo_input_node = JDict [(''id'', JStr ''in-1''), (''type'', JStr ''InputNode''),
                            (''data'', JDict [(''input'', JStr ''Say {word}'')])]"

definition demo_empty_input_node :: json where
  "demo_empty_input_node = JDict [(''id'', JStr ''in-0''), (''type'', JStr ''InputNode''),
                                  (''data'', JDict [(''input'', JStr [])])]"

definition demo_chat_node :: json where
  "demo_chat_node = JDict [(''id'', JStr ''ChatInput-1''), (''type'', JStr ''genericNode'')]"

definition demo_prompt_node :: json where
  "demo_prompt_node =
     JDict [(''id'', JStr ''Prompt-1''), (''type'', JStr ''genericNode''),
            (''data'', JDict [(''node'', JDict [(''template'',
                                JDict [(''value'', JStr ''Tell {word}'')])])])]"

definition demo_payload :: json where
  "demo_payload = JDict [(''word'', JStr ''hi'')]"

definition demo_middle_node :: json where
  "demo_middle_node = JDict [(''id'', JStr ''node-ChatInput-1''), (''type'', JStr ''genericNode'')]"

definition demo_nested_node :: json where
  "demo_nested_node = JDict [(''id'', JStr ''node-1''), (''type'', JStr ''genericNode''),
                             (''data'', JDict [(''id'', JStr ''ChatInput-1''),
                                               (''type'', JStr ''ChatInput'')])]"

definition demo_typed_node :: json where
  "demo_typed_node = JDict [(''data'', JDict [(''type'', JStr ''MyChatInputComponent'')])]"

definition demo_anonymous_chat_node :: json where
  "demo_anonymous_chat_node = JDict [(''id'', JStr []), (''type'', JStr ''ChatInput'')]"

definition demo_null_input_node :: json where
  "demo_null_input_node = JDict [(''id'', JStr ''in-2''), (''type'', JStr ''InputNode''),
                                 (''data'', JDict [(''input'', JNull)])]"

text \<open>Workflows of one \<^verbatim>\<open>InputNode\<close> for the substitution examples.\<close>

definition demo_greeting_flow :: json where
  "demo_greeting_flow =
     JDict [(''nodes'', JList [JDict [(''type'', JStr ''InputNode''),
              (''data'', JDict [(''input'', JStr ''Hello {name}, you are {age}'')])]])]"

definition demo_repeat_flow :: json where
  "demo_repeat_flow =
     JDict [(''nodes'', JList [JDict [(''type'', JStr ''InputNode''),
              (''data'', JDict [(''input'', JStr ''{a}-{a}-{b}'')])]])]"

text \<open>Backends, a rendering of exceptions, a clock and a world for the examples.\<close>

definition dq :: string where
  "dq = [CHR 0x22]"












section \<open>Evaluation\<close>

lemmas eval_defs = extract_prompt_def is_input_node_def dict_get_def dict_get_default_def has_key_def
  process_template_def py_replace_def py_str_def str_int_def str_nat.simps digit_char_def
  langflow_prompt_def node_field_def name_test_def prompt_template_def get_or_empty_def
  get_value_def sublist_code

lemmas demo_defs = demo_input_node_def demo_empty_input_node_def demo_chat_node_def
  demo_prompt_node_def demo_payload_def demo_middle_node_def demo_nested_node_def
  demo_typed_node_def demo_anonymous_chat_node_def demo_null_input_node_def

lemmas spec_defs = wf_node_def strategy_a_template_def substituted_def effective_field_def
  search_match_def




section \<open>Strings\<close>

text \<open>
  \<^verbatim>\<open>str.replace\<close> is determined by two equations: a string without an occurrence
  of \<open>old\<close> is left as it is, and a string whose leftmost occurrence of \<open>old\<close>
  starts after \<open>a\<close> is \<open>a\<close>, then \<open>new\<close>, then the replacement of what follows
  that occurrence.
\<close>

lemma prefix_within:
  assumes "prefix xs (ys @ zs)" "length xs \<le> length ys"
  shows "prefix xs ys"
  using assms unfolding prefix_append by auto

lemma no_early_occurrence:
  assumes "old \<noteq> []" and "\<not> sublist old ((c # cs) @ butlast old)"
  shows "\<not> prefix old ((c # cs) @ old @ rest)"
proof
  assume p: "prefix old ((c # cs) @ old @ rest)"
  have "old = butlast old @ [last old]" using assms(1) by simp
  then have e: "(c # cs) @ old @ rest = ((c # cs) @ butlast old) @ (last old # rest)"
    by (metis append.assoc append_Cons append_Nil)
  from p have "prefix old (((c # cs) @ butlast old) @ (last old # rest))" by (simp only: e)
  moreover have "length old \<le> length ((c # cs) @ butlast old)" using assms(1) by (cases old) auto
  ultimately have "prefix old ((c # cs) @ butlast old)" by (rule prefix_within)
  with assms(2) show False by auto
qed

lemma replace_scan_leftmost:
  assumes "old \<noteq> []"
  shows "\<not> sublist old (a @ butlast old) \<Longrightarrow>
     replace_scan old new (a @ old @ rest) = a @ new @ replace_scan old new rest"
proof (induction a)
  case Nil
  from assms obtain x xs where "old = x # xs" by (cases old) auto
  then show ?case by simp
next
  case (Cons c cs)
  from no_early_occurrence [OF assms Cons.prems, of rest]
  have np: "\<not> prefix old (c # cs @ old @ rest)" by simp
  from Cons.prems have "\<not> sublist old (cs @ butlast old)"
    by (auto simp: sublist_Cons_right)
  with Cons.IH have "replace_scan old new (cs @ old @ rest) = cs @ new @ replace_scan old new rest"
    by simp
  with np show ?case by simp
qed

lemma replace_scan_absent: "\<not> sublist old s \<Longrightarrow> replace_scan old new s = s"
proof (induction s)
  case Nil
  then show ?case by simp
next
  case (Cons c cs)
  then have "\<not> prefix old (c # cs)" "\<not> sublist old cs"
    by (auto simp: sublist_Cons_right)
  with Cons.IH show ?case by simp
qed

lemma py_replace_absent: "\<not> sublist old s \<Longrightarrow> py_replace s old new = s"
  by (cases "old = []") (auto simp: py_replace_def replace_scan_absent)

lemma py_replace_leftmost:
  "old \<noteq> [] \<Longrightarrow> \<not> sublist old (a @ butlast old) \<Longrightarrow>
     py_replace (a @ old @ rest) old new = a @ new @ py_replace rest old new"
  by (simp add: py_replace_def replace_scan_leftmost)

text \<open>
  \<^verbatim>\<open>str\<close> of a natural number is its decimal numeral: digits only, of the right
  value, without a leading zero.
\<close>

lemma digit_char_value: "d < 10 \<Longrightarrow> (of_char (digit_char d) :: nat) = 48 + d"
proof -
  assume "d < 10"
  then have "d \<in> {0,1,2,3,4,5,6,7,8,9}" by auto
  then show ?thesis by (auto simp: digit_char_def)
qed

lemma digit_char_digit: "d < 10 \<Longrightarrow> digit_char d \<in> set ''0123456789''"
proof -
  assume "d < 10"
  then have "d \<in> {0,1,2,3,4,5,6,7,8,9}" by auto
  then show ?thesis by (auto simp: digit_char_def)
qed

lemma decimal_value_snoc: "decimal_value (s @ [c]) = 10 * decimal_value s + (of_char c - 48)"
  by (simp add: decimal_value_def)

lemma str_nat_value: "decimal_value (str_nat n) = n"
proof (induction n rule: str_nat.induct)
  case (1 n)
  show ?case
  proof (cases "n < 10")
    case True
    then show ?thesis
      by (subst str_nat.simps) (simp add: decimal_value_def digit_char_value)
  next
    case False
    with 1 have "decimal_value (str_nat (n div 10)) = n div 10" by simp
    with False show ?thesis
      by (subst str_nat.simps) (simp add: decimal_value_snoc digit_char_value)
  qed
qed

lemma str_nat_digits: "set (str_nat n) \<subseteq> set ''0123456789''"
proof (induction n rule: str_nat.induct)
  case (1 n)
  show ?case
  proof (cases "n < 10")
    case True
    then show ?thesis
      using digit_char_digit [of n] by (subst str_nat.simps) simp
  next
    case False
    with 1 have "set (str_nat (n div 10)) \<subseteq> set ''0123456789''" by simp
    with False show ?thesis
      using digit_char_digit [of "n mod 10"] by (subst str_nat.simps) simp
  qed
qed

lemma str_nat_nonempty: "str_nat n \<noteq> []"
  by (subst str_nat.simps) simp

lemma str_nat_no_leading_zero: "0 < n \<Longrightarrow> hd (str_nat n) \<noteq> CHR ''0''"
proof (induction n rule: str_nat.induct)
  case (1 n)
  show ?case
  proof (cases "n < 10")
    case True
    with 1(2) have "n \<in> {1,2,3,4,5,6,7,8,9}" by auto
    then show ?thesis by (subst str_nat.simps) (auto simp: digit_char_def)
  next
    case False
    with 1 have "hd (str_nat (n div 10)) \<noteq> CHR ''0''" by simp
    with False show ?thesis
      by (subst str_nat.simps) (simp add: str_nat_nonempty)
  qed
qed

lemma py_str_nonneg:
  assumes "0 \<le> i"
  shows "set (py_str (JInt i)) \<subseteq> set ''0123456789''
       \<and> int (decimal_value (py_str (JInt i))) = i
       \<and> py_str (JInt i) \<noteq> []
       \<and> (i \<noteq> 0 \<longrightarrow> hd (py_str (JInt i)) \<noteq> CHR ''0'')
       \<and> (i = 0 \<longrightarrow> py_str (JInt i) = ''0'')"
proof -
  have s: "py_str (JInt i) = str_nat (nat i)" using assms by (simp add: py_str_def str_int_def)
  have "i \<noteq> 0 \<Longrightarrow> hd (str_nat (nat i)) \<noteq> CHR ''0''"
    using assms by (intro str_nat_no_leading_zero) simp
  moreover have "i = 0 \<Longrightarrow> str_nat (nat i) = ''0''"
    by (simp add: str_nat.simps digit_char_def)
  ultimately show ?thesis
    unfolding s using assms str_nat_digits [of "nat i"]
    by (simp add: str_nat_value str_nat_nonempty)
qed

lemma py_str_neg: "i < 0 \<Longrightarrow> py_str (JInt i) = CHR ''-'' # py_str (JInt (- i))"
  by (simp add: py_str_def str_int_def)

lemmas str_defs = py_str_def str_int_def str_nat.simps digit_char_def repr_str_def repr_char_def
  sq_def Let_def

lemma demo_replace:
  "py_replace ''x{k}y{k}z'' ''{k}'' ''v'' = ''xvyvz''"
  "py_replace ''y{k}z'' ''{k}'' ''v'' = ''yvz''"
  "py_replace ''no placeholder'' ''{k}'' ''v'' = ''no placeholder''"
  by (simp_all add: py_replace_def)

lemma demo_str:
  "py_str (JInt 30) = ''30''"
  "py_str (JInt 0) = ''0''"
  "py_str (JInt (- 305)) = ''-305''"
  "py_str (JInt 305) = ''305''"
  "py_str (JList [JStr ''a'', JInt 1, JNull, JBool True, JFloat ''1.5''])
     = ''['' @ sq @ ''a'' @ sq @ '', 1, None, True, 1.5]''"
  "py_str (JDict [(''k'', JList [JBool False]), (''n'', JStr ''v'')])
     = ''{'' @ sq @ ''k'' @ sq @ '': [False], '' @ sq @ ''n'' @ sq @ '': '' @ sq @ ''v'' @ sq @ ''}''"
  "py_str (JList [JStr (''it'' @ sq @ ''s'')]) = ''['' @ dq @ ''it'' @ sq @ ''s'' @ dq @ '']''"
  "py_str (JList [JStr (sq @ dq)]) = ''['' @ sq @ [CHR 0x5C] @ sq @ dq @ sq @ '']''"
  "py_str (JList [JStr [CHR 0x5C, CHR 0x0A, CHR 0x09, CHR 0x0D, CHR 0x1F]])
     = ''['' @ sq @ [CHR 0x5C, CHR 0x5C, CHR 0x5C] @ ''n'' @ [CHR 0x5C] @ ''t'' @ [CHR 0x5C] @ ''r''
       @ [CHR 0x5C] @ ''x1f'' @ sq @ '']''"
  by (simp_all add: str_defs dq_def)

section \<open>The workflow loader\<close>

lemma load_workflow_json_Inr:
  assumes "load_workflow_json doc = Inr r"
  shows "\<exists>root ns es. doc = JDict root
     \<and> (if has_key root ''data''
         then (\<exists>d. map_of root ''data'' = Some (JDict d) \<and> map_of d ''nodes'' = Some (JList ns)
                  \<and> map_of d ''edges'' = Some (JList es))
              \<and> r = JDict [(''nodes'', JList ns), (''edges'', JList es)]
         else map_of root ''nodes'' = Some (JList ns) \<and> map_of root ''edges'' = Some (JList es)
              \<and> r = JDict root)"
proof (cases doc)
  case (JDict root)
  show ?thesis
  proof (cases "has_key root ''data''")
    case True
    with assms JDict obtain d where d: "map_of root ''data'' = Some (JDict d)"
      by (auto simp: load_workflow_json_def has_key_def dict_get_def split: json.splits)
    with assms JDict True have k: "has_key d ''nodes''" "has_key d ''edges''"
      "is_list (dict_get d ''nodes'')" "is_list (dict_get d ''edges'')"
      and r: "r = JDict [(''nodes'', dict_get d ''nodes''), (''edges'', dict_get d ''edges'')]"
      by (auto simp: load_workflow_json_def dict_get_def split: if_splits)
    from k obtain ns es where "map_of d ''nodes'' = Some (JList ns)" "map_of d ''edges'' = Some (JList es)"
      by (auto simp: has_key_def dict_get_def elim!: is_list.elims)
    with d r True JDict show ?thesis by (auto simp: dict_get_def)
  next
    case False
    with assms JDict have k: "has_key root ''nodes''" "has_key root ''edges''"
      "is_list (dict_get root ''nodes'')" "is_list (dict_get root ''edges'')"
      and r: "r = JDict root"
      by (auto simp: load_workflow_json_def split: if_splits)
    from k obtain ns es where "map_of root ''nodes'' = Some (JList ns)" "map_of root ''edges'' = Some (JList es)"
      by (auto simp: has_key_def dict_get_def elim!: is_list.elims)
    with r False JDict show ?thesis by auto
  qed
qed (use assms in \<open>auto simp: load_workflow_json_def\<close>)

lemma load_workflow_Inr:
  "load_workflow fls path = Inr r \<Longrightarrow> \<exists>doc. fls path = Some (Parsed doc) \<and> load_workflow_json doc = Inr r"
  by (auto simp: load_workflow_def split: option.splits file_content.splits)

text \<open>
  C4, as amended.  Whenever \<^verbatim>\<open>load_workflow\<close> succeeds, the file holds a mapping and
  the value returned is a mapping whose \<^verbatim>\<open>nodes\<close> and \<^verbatim>\<open>edges\<close> entries are the
  document's lists, in their order.  For a document with a \<^verbatim>\<open>data\<close> key it is
  exactly the mapping of these two entries; for a flat document it is the decoded
  root mapping itself, with whatever other keys the root has.
\<close>

theorem load_workflow_canonical:
  assumes "load_workflow fls path = Inr r"
  shows "\<exists>root ns es. fls path = Some (Parsed (JDict root))
     \<and> (\<exists>kvs. r = JDict kvs \<and> map_of kvs ''nodes'' = Some (JList ns)
              \<and> map_of kvs ''edges'' = Some (JList es))
     \<and> (if has_key root ''data''
         then (\<exists>d. map_of root ''data'' = Some (JDict d) \<and> map_of d ''nodes'' = Some (JList ns)
                  \<and> map_of d ''edges'' = Some (JList es))
              \<and> r = JDict [(''nodes'', JList ns), (''edges'', JList es)]
         else map_of root ''nodes'' = Some (JList ns) \<and> map_of root ''edges'' = Some (JList es)
              \<and> r = JDict root)"
proof -
  from load_workflow_Inr [OF assms] obtain doc where
    doc: "fls path = Some (Parsed doc)" "load_workflow_json doc = Inr r" by blast
  from load_workflow_json_Inr [OF doc(2)] obtain root ns es where
    *: "doc = JDict root"
       "if has_key root ''data''
         then (\<exists>d. map_of root ''data'' = Some (JDict d) \<and> map_of d ''nodes'' = Some (JList ns)
                  \<and> map_of d ''edges'' = Some (JList es))
              \<and> r = JDict [(''nodes'', JList ns), (''edges'', JList es)]
         else map_of root ''nodes'' = Some (JList ns) \<and> map_of root ''edges'' = Some (JList es)
              \<and> r = JDict root" by blast
  from *(2) have "\<exists>kvs. r = JDict kvs \<and> map_of kvs ''nodes'' = Some (JList ns)
              \<and> map_of kvs ''edges'' = Some (JList es)"
    by (auto split: if_splits)
  with doc * show ?thesis by blast
qed

theorem load_workflow_canonical_witness:
  "load_workflow [''flow.json'' \<mapsto> Parsed (JDict [(''data'', JDict [(''nodes'', JList [JStr ''n1'', JStr ''n2'']), (''edges'', JList [JStr ''e1''])]), (''name'', JStr ''demo'')])] ''flow.json''
     = Inr (JDict [(''nodes'', JList [JStr ''n1'', JStr ''n2'']), (''edges'', JList [JStr ''e1''])])
   \<and> load_workflow [''flow.json'' \<mapsto> Parsed (JDict [(''edges'', JList [JStr ''e1'']), (''nodes'', JList [JStr ''n1'', JStr ''n2''])])] ''flow.json''
     = Inr (JDict [(''edges'', JList [JStr ''e1'']), (''nodes'', JList [JStr ''n1'', JStr ''n2''])])"
  using load_workflow_canonical [of "[''flow.json'' \<mapsto> Parsed (JDict [(''data'', JDict [(''nodes'', JList [JStr ''n1'', JStr ''n2'']), (''edges'', JList [JStr ''e1''])]), (''name'', JStr ''demo'')])]" "''flow.json''"
      "JDict [(''nodes'', JList [JStr ''n1'', JStr ''n2'']), (''edges'', JList [JStr ''e1''])]"]
    load_workflow_canonical [of "[''flow.json'' \<mapsto> Parsed (JDict [(''edges'', JList [JStr ''e1'']), (''nodes'', JList [JStr ''n1'', JStr ''n2''])])]" "''flow.json''"
      "JDict [(''edges'', JList [JStr ''e1'']), (''nodes'', JList [JStr ''n1'', JStr ''n2''])]"]
  by (simp add: load_workflow_def load_workflow_json_def has_key_def dict_get_def)

text \<open>
  A flat document with a further key loads to a mapping that has that key too, and
  differs from what the nested document of the same nodes and edges loads to.
\<close>

theorem load_workflow_flat_counterexample:
  "load_workflow [''flow.json'' \<mapsto> Parsed (JDict [(''nodes'', JList [JStr ''n1'']), (''edges'', JList []), (''name'', JStr ''demo'')])] ''flow.json''
     = Inr (JDict [(''nodes'', JList [JStr ''n1'']), (''edges'', JList []), (''name'', JStr ''demo'')])
   \<and> load_workflow [''flow.json'' \<mapsto> Parsed (JDict [(''data'', JDict [(''nodes'', JList [JStr ''n1'']), (''edges'', JList [])])])] ''flow.json''
     = Inr (JDict [(''nodes'', JList [JStr ''n1'']), (''edges'', JList [])])
   \<and> JDict [(''nodes'', JList [JStr ''n1'']), (''edges'', JList []), (''name'', JStr ''demo'')]
        \<noteq> JDict [(''nodes'', JList [JStr ''n1'']), (''edges'', JList [])]"
  by (simp add: load_workflow_def load_workflow_json_def has_key_def dict_get_def)

section \<open>The prompt resolver\<close>

subsection \<open>The first loop\<close>

lemma substitute_fold: "substitute (JStr t) items = Inr (JStr (substituted t items))"
  by (induction items arbitrary: t) (auto simp: substituted_def)

lemma dict_get_eq_JStr: "dict_get kvs k = JStr s \<longleftrightarrow> map_of kvs k = Some (JStr s)"
  by (auto simp: dict_get_def split: option.splits)

lemma loop_skip:
  assumes "wf_node m" "strategy_a_template m = None"
  shows "input_node_loop (m # rest) payload = input_node_loop rest payload"
  using assms
  by (auto simp: wf_node_def strategy_a_template_def is_input_node_def dict_get_eq_JStr
      has_key_def dict_get_def split: json.splits option.splits if_splits)

lemma loop_hit:
  assumes "strategy_a_template n = Some t"
  shows "input_node_loop (n # rest) payload =
           (case process_template t payload of Inl e \<Rightarrow> Inl e | Inr r \<Rightarrow> Inr (Some r))"
  using assms
  by (auto simp: strategy_a_template_def is_input_node_def dict_get_eq_JStr
      has_key_def dict_get_def split: json.splits option.splits if_splits)

lemma loop_first_match:
  assumes "\<forall>m\<in>set pre. wf_node m \<and> strategy_a_template m = None"
    and "strategy_a_template n = Some t"
  shows "input_node_loop (pre @ n # post) payload =
           (case process_template t payload of Inl e \<Rightarrow> Inl e | Inr r \<Rightarrow> Inr (Some r))"
  using assms
proof (induction pre)
  case Nil
  then show ?case by (simp add: loop_hit del: input_node_loop.simps)
next
  case (Cons m pre)
  then show ?case by (simp add: loop_skip del: input_node_loop.simps)
qed

lemma loop_no_match:
  assumes "\<forall>m\<in>set nodes. wf_node m \<and> strategy_a_template m = None"
  shows "input_node_loop nodes payload = Inr None"
  using assms
proof (induction nodes)
  case Nil
  then show ?case by simp
next
  case (Cons m nodes)
  then show ?case by (simp add: loop_skip del: input_node_loop.simps)
qed

lemma process_template_empty: "process_template t (JDict []) = Inr t"
  by (simp add: process_template_def)

lemma process_template_JStr:
  "process_template (JStr t) payload =
     Inr (JStr (case payload of JDict items \<Rightarrow> substituted t items | _ \<Rightarrow> t))"
  by (cases payload) (simp_all add: process_template_def substitute_fold)

lemma substituted_empty: "substituted [] items = []"
  by (induction items) (auto simp: substituted_def py_replace_def)

lemma loop_payload:
  "input_node_loop nodes (JDict []) = Inr found \<Longrightarrow>
     input_node_loop nodes payload =
       (case found of
          None \<Rightarrow> Inr None
        | Some t \<Rightarrow> (case process_template t payload of Inl e \<Rightarrow> Inl e | Inr r \<Rightarrow> Inr (Some r)))"
proof (induction nodes)
  case Nil
  then show ?case by auto
next
  case (Cons n nodes)
  then show ?case
    by (cases n) (auto simp: process_template_empty split: sum.splits bool.splits)
qed

lemma langflow_payload:
  assumes "langflow_prompt nodes (JDict []) = Inr t"
  shows "langflow_prompt nodes payload = process_template t payload"
  using assms
  by (auto simp: langflow_prompt_def process_template_empty split: sum.splits if_splits)

lemma extract_payload:
  assumes "extract_prompt flow (JDict []) = Inr t"
  shows "extract_prompt flow payload = process_template t payload"
proof -
  from assms obtain kvs nodes where f: "flow = JDict kvs" "map_of kvs ''nodes'' = Some (JList nodes)"
    by (auto simp: extract_prompt_def split: json.splits option.splits)
  from assms f obtain found where l: "input_node_loop nodes (JDict []) = Inr found"
    by (auto simp: extract_prompt_def split: sum.splits)
  show ?thesis
  proof (cases found)
    case None
    with assms f l have "langflow_prompt nodes (JDict []) = Inr t"
      by (simp add: extract_prompt_def)
    from langflow_payload [OF this] loop_payload [OF l] None f show ?thesis
      by (simp add: extract_prompt_def)
  next
    case (Some u)
    with assms f l have "u = t" by (simp add: extract_prompt_def)
    with loop_payload [OF l] Some f show ?thesis
      by (simp add: extract_prompt_def split: sum.splits)
  qed
qed

text \<open>
  C5.  Let \<open>t\<close> be the template that \<^verbatim>\<open>extract_prompt\<close> finds (what it returns on
  the empty payload).  On a payload that is a mapping it returns the string got
  from \<open>t\<close> by going through the pairs of the payload in order and replacing, in
  the one working string, every occurrence of \<^verbatim>\<open>{key}\<close> by \<^verbatim>\<open>str(value)\<close>; on a
  payload that is not a mapping it returns \<open>t\<close> unchanged.  The replacement leaves
  a string without an occurrence as it is and otherwise replaces the leftmost
  occurrence and goes on in the same way behind it, so that every occurrence is
  replaced.  The string representation of a string is the string itself, of
  \<^verbatim>\<open>null\<close>, \<^verbatim>\<open>true\<close> and \<^verbatim>\<open>false\<close> it is \<^verbatim>\<open>None\<close>, \<^verbatim>\<open>True\<close> and \<^verbatim>\<open>False\<close>, of an
  integer its decimal numeral with a minus sign when negative, of a float its
  \<^verbatim>\<open>repr\<close>, and of a list or mapping the bracketed, comma-separated \<^verbatim>\<open>repr\<close>s of
  its elements.
\<close>

theorem placeholder_substitution:
  "(extract_prompt flow (JDict []) = Inr (JStr t) \<longrightarrow>
      extract_prompt flow (JDict items)
        = Inr (JStr (fold (\<lambda>(k, v) s. py_replace s (''{'' @ k @ ''}'') (py_str v)) items t))
      \<and> (\<not> is_dict payload \<longrightarrow> extract_prompt flow payload = Inr (JStr t)))
   \<and> (\<not> sublist old s \<longrightarrow> py_replace s old new = s)
   \<and> (old \<noteq> [] \<and> \<not> sublist old (a @ butlast old) \<longrightarrow>
        py_replace (a @ old @ rest) old new = a @ new @ py_replace rest old new)
   \<and> py_str (JStr s) = s
   \<and> py_str JNull = ''None''
   \<and> py_str (JBool True) = ''True''
   \<and> py_str (JBool False) = ''False''
   \<and> py_str (JFloat r) = r
   \<and> (0 \<le> i \<longrightarrow>
        set (py_str (JInt i)) \<subseteq> set ''0123456789''
        \<and> int (decimal_value (py_str (JInt i))) = i
        \<and> py_str (JInt i) \<noteq> []
        \<and> (i \<noteq> 0 \<longrightarrow> hd (py_str (JInt i)) \<noteq> CHR ''0'')
        \<and> (i = 0 \<longrightarrow> py_str (JInt i) = ''0''))
   \<and> (i < 0 \<longrightarrow> py_str (JInt i) = CHR ''-'' # py_str (JInt (- i)))
   \<and> py_str (JList xs) = ''['' @ join_comma (map py_repr xs) @ '']''
   \<and> py_str (JDict kvs)
       = ''{'' @ join_comma (map (\<lambda>(k, v). repr_str k @ '': '' @ py_repr v) kvs) @ ''}''
   \<and> py_repr (JStr s) = repr_str s
   \<and> ((\<forall>u. v \<noteq> JStr u) \<longrightarrow> py_repr v = py_str v)"
proof -
  have 1: "extract_prompt flow (JDict []) = Inr (JStr t) \<longrightarrow>
      extract_prompt flow (JDict items)
        = Inr (JStr (fold (\<lambda>(k, v) s. py_replace s (''{'' @ k @ ''}'') (py_str v)) items t))
      \<and> (\<not> is_dict payload \<longrightarrow> extract_prompt flow payload = Inr (JStr t))"
  proof
    assume h: "extract_prompt flow (JDict []) = Inr (JStr t)"
    have "extract_prompt flow (JDict items) = Inr (JStr (substituted t items))"
      by (simp add: extract_payload [OF h] process_template_JStr)
    moreover have "\<not> is_dict payload \<Longrightarrow> extract_prompt flow payload = Inr (JStr t)"
      by (cases payload) (simp_all add: extract_payload [OF h] process_template_JStr)
    ultimately show "extract_prompt flow (JDict items)
        = Inr (JStr (fold (\<lambda>(k, v) s. py_replace s (''{'' @ k @ ''}'') (py_str v)) items t))
      \<and> (\<not> is_dict payload \<longrightarrow> extract_prompt flow payload = Inr (JStr t))"
      by (simp add: substituted_def)
  qed
  have 2: "\<not> sublist old s \<longrightarrow> py_replace s old new = s"
    by (simp add: py_replace_absent)
  have 3: "old \<noteq> [] \<and> \<not> sublist old (a @ butlast old) \<longrightarrow>
        py_replace (a @ old @ rest) old new = a @ new @ py_replace rest old new"
    by (simp add: py_replace_leftmost)
  have 4: "py_str (JStr s) = s" "py_str JNull = ''None''" "py_str (JBool True) = ''True''"
    "py_str (JBool False) = ''False''" "py_str (JFloat r) = r"
    "py_str (JList xs) = ''['' @ join_comma (map py_repr xs) @ '']''"
    "py_str (JDict kvs)
       = ''{'' @ join_comma (map (\<lambda>(k, v). repr_str k @ '': '' @ py_repr v) kvs) @ ''}''"
    "py_repr (JStr s) = repr_str s"
    by (simp_all add: py_str_def)
  have 5: "(\<forall>u. v \<noteq> JStr u) \<longrightarrow> py_repr v = py_str v"
    by (cases v) (simp_all add: py_str_def)
  from 1 2 3 4 5 py_str_nonneg [of i] py_str_neg [of i] show ?thesis
    by blast
qed

text \<open>
  The template \<^verbatim>\<open>Hello {name}, you are {age}\<close> with the payload
  \<^verbatim>\<open>{"name": "Ada", "age": 30}\<close> gives \<^verbatim>\<open>Hello Ada, you are 30\<close>; a placeholder
  that occurs twice is replaced twice, and a later key is replaced inside what an
  earlier key has put in.  The template of a Prompt node is substituted in the
  same way.
\<close>

lemma demo_greeting:
  "extract_prompt demo_greeting_flow (JDict []) = Inr (JStr ''Hello {name}, you are {age}'')"
  "extract_prompt demo_greeting_flow (JDict [(''name'', JStr ''Ada''), (''age'', JInt 30)])
     = Inr (JStr ''Hello Ada, you are 30'')"
  "extract_prompt demo_greeting_flow (JList [JStr ''name'', JStr ''Ada''])
     = Inr (JStr ''Hello {name}, you are {age}'')"
  by (simp_all add: demo_greeting_flow_def eval_defs)

lemma demo_repeat:
  "extract_prompt demo_repeat_flow (JDict []) = Inr (JStr ''{a}-{a}-{b}'')"
  "extract_prompt demo_repeat_flow (JDict [(''a'', JStr ''{b}''), (''b'', JInt (- 7))])
     = Inr (JStr ''-7--7--7'')"
  by (simp_all add: demo_repeat_flow_def eval_defs)

lemma demo_pair:
  "extract_prompt (JDict [(''nodes'', JList [demo_chat_node, demo_prompt_node])]) (JDict [])
     = Inr (JStr ''Tell {word}'')"
  "extract_prompt (JDict [(''nodes'', JList [demo_chat_node, demo_prompt_node])])
     (JDict [(''word'', JStr ''hi''), (''other'', JNull)]) = Inr (JStr ''Tell hi'')"
  by (simp_all add: demo_defs eval_defs)

theorem placeholder_substitution_witness:
  "extract_prompt demo_greeting_flow (JDict []) = Inr (JStr ''Hello {name}, you are {age}'')
   \<and> extract_prompt demo_greeting_flow (JDict [(''name'', JStr ''Ada''), (''age'', JInt 30)])
     = Inr (JStr ''Hello Ada, you are 30'')
   \<and> extract_prompt demo_greeting_flow (JList [JStr ''name'', JStr ''Ada''])
     = Inr (JStr ''Hello {name}, you are {age}'')
   \<and> extract_prompt demo_repeat_flow (JDict [(''a'', JStr ''{b}''), (''b'', JInt (- 7))])
     = Inr (JStr ''-7--7--7'')
   \<and> extract_prompt (JDict [(''nodes'', JList [demo_chat_node, demo_prompt_node])])
        (JDict [(''word'', JStr ''hi''), (''other'', JNull)]) = Inr (JStr ''Tell hi'')
   \<and> py_replace ''x{k}y{k}z'' ''{k}'' ''v'' = ''xvyvz''
   \<and> py_replace ''no placeholder'' ''{k}'' ''v'' = ''no placeholder''
   \<and> py_str (JInt 30) = ''30''
   \<and> py_str (JInt 0) = ''0''
   \<and> py_str (JInt (- 305)) = ''-305''
   \<and> py_str (JList [JStr ''a'', JInt 1, JNull, JBool True, JFloat ''1.5''])
     = ''['' @ sq @ ''a'' @ sq @ '', 1, None, True, 1.5]''
   \<and> py_str (JDict [(''k'', JList [JBool False]), (''n'', JStr ''v'')])
     = ''{'' @ sq @ ''k'' @ sq @ '': [False], '' @ sq @ ''n'' @ sq @ '': '' @ sq @ ''v'' @ sq @ ''}''
   \<and> py_str (JList [JStr (''it'' @ sq @ ''s'')]) = ''['' @ dq @ ''it'' @ sq @ ''s'' @ dq @ '']''
   \<and> py_str (JList [JStr (sq @ dq)]) = ''['' @ sq @ [CHR 0x5C] @ sq @ dq @ sq @ '']''
   \<and> py_str (JList [JStr [CHR 0x5C, CHR 0x0A, CHR 0x09, CHR 0x0D, CHR 0x1F]])
     = ''['' @ sq @ [CHR 0x5C, CHR 0x5C, CHR 0x5C] @ ''n'' @ [CHR 0x5C] @ ''t'' @ [CHR 0x5C] @ ''r''
       @ [CHR 0x5C] @ ''x1f'' @ sq @ '']''"
proof -
  have a: "extract_prompt demo_greeting_flow (JList [JStr ''name'', JStr ''Ada''])
             = Inr (JStr ''Hello {name}, you are {age}'')"
    using placeholder_substitution [of demo_greeting_flow "''Hello {name}, you are {age}''" "[]"
        "JList [JStr ''name'', JStr ''Ada'']"] demo_greeting(1)
    by simp
  have b: "py_replace (''x'' @ ''{k}'' @ ''y{k}z'') ''{k}'' ''v'' = ''x'' @ ''v'' @ py_replace ''y{k}z'' ''{k}'' ''v''"
  proof -
    have "''{k}'' \<noteq> [] \<and> \<not> sublist ''{k}'' (''x'' @ butlast ''{k}'')"
      by (simp add: sublist_code)
    with placeholder_substitution [where old = "''{k}''" and a = "''x''" and rest = "''y{k}z''" and new = "''v''"]
    show ?thesis by blast
  qed
  have c: "py_replace ''no placeholder'' ''{k}'' ''v'' = ''no placeholder''"
  proof -
    have "\<not> sublist ''{k}'' ''no placeholder''" by (simp add: sublist_code)
    with placeholder_substitution [where old = "''{k}''" and s = "''no placeholder''" and new = "''v''"]
    show ?thesis by blast
  qed
  have d: "py_str (JInt 0) = ''0''"
    using placeholder_substitution [where i = 0] by simp
  have e: "py_str (JInt (- 305)) = CHR ''-'' # py_str (JInt (- (- 305)))"
    using placeholder_substitution [where i = "- 305"] by simp
  from a b c d e show ?thesis
    by (simp add: demo_greeting demo_repeat demo_pair demo_replace str_defs dq_def)
qed



subsection \<open>The order of the strategies\<close>

text \<open>
  An \<^verbatim>\<open>InputNode\<close> whose \<^verbatim>\<open>input\<close> field is the empty string still wins: the
  result is the empty string, though the ChatInput and Prompt pair of the same
  workflow has the template \<^verbatim>\<open>Tell {word}\<close>.
\<close>

theorem empty_template_counterexample:
  "extract_prompt (JDict [(''nodes'', JList [demo_empty_input_node, demo_chat_node, demo_prompt_node]), (''edges'', JList [])]) demo_payload
     = Inr (JStr [])
   \<and> extract_prompt (JDict [(''nodes'', JList [demo_chat_node, demo_prompt_node]), (''edges'', JList [])]) demo_payload
     = Inr (JStr ''Tell hi'')"
  by (simp add: demo_defs eval_defs)

lemma langflow_Inr:
  assumes "langflow_prompt nodes payload = Inr r"
  shows "\<exists>chat_input_id prompt_node template.
           find_chat_input nodes = Inr chat_input_id \<and> truthy chat_input_id
         \<and> find_prompt_node nodes = Inr prompt_node
         \<and> prompt_template prompt_node = Inr template \<and> truthy template
         \<and> process_template template payload = Inr r"
  using assms by (auto simp: langflow_prompt_def split: sum.splits if_splits)

lemma process_template_other:
  assumes "\<forall>t. v \<noteq> JStr t"
  shows "process_template v payload =
           (case payload of
              JDict (item # items) \<Rightarrow> Inl (AttributeError (type_name v) ''replace'')
            | _ \<Rightarrow> Inr v)"
proof (cases payload)
  case (JDict items)
  show ?thesis
  proof (cases items)
    case Nil
    with JDict show ?thesis by (simp add: process_template_def)
  next
    case (Cons item rest)
    obtain k x where "item = (k, x)" by (cases item)
    with JDict Cons assms show ?thesis
      by (cases v) (simp_all add: process_template_def)
  qed
qed (simp_all add: process_template_def)

lemma extract_first_match:
  assumes "map_of flow ''nodes'' = Some (JList (pre @ n # post))"
    and "\<forall>m\<in>set pre. wf_node m \<and> strategy_a_template m = None"
    and "strategy_a_template n = Some v"
  shows "extract_prompt (JDict flow) payload = process_template v payload"
  using assms(1) loop_first_match [OF assms(2,3), of post payload]
  by (simp add: extract_prompt_def split: sum.splits)

text \<open>
  C2, as amended.  The strategies are tried in the fixed order A then B, and
  Strategy A is not tested for emptiness.  As soon as a node satisfies Strategy A,
  its \<^verbatim>\<open>input\<close> field decides and Strategy B is not attempted: a string wins with
  its substitution, also the empty string, for which the result is the empty
  string; a field that is not a string is returned as it is when the payload is
  not a mapping or is empty, and otherwise the call fails with an
  \<^verbatim>\<open>AttributeError\<close>.  Strategy B is attempted only when no node satisfies
  Strategy A, and it wins only with a template that is not empty.
\<close>

theorem strategy_order:
  assumes "map_of flow ''nodes'' = Some (JList nodes)"
  shows "(\<forall>pre n post v. nodes = pre @ n # post
            \<and> (\<forall>m\<in>set pre. wf_node m \<and> strategy_a_template m = None)
            \<and> strategy_a_template n = Some v
          \<longrightarrow> (\<forall>t. v = JStr t \<longrightarrow>
                  extract_prompt (JDict flow) payload
                    = Inr (JStr (case payload of JDict items \<Rightarrow> substituted t items | _ \<Rightarrow> t)))
            \<and> (v = JStr [] \<longrightarrow> extract_prompt (JDict flow) payload = Inr (JStr []))
            \<and> ((\<forall>t. v \<noteq> JStr t) \<longrightarrow>
                  extract_prompt (JDict flow) payload
                    = (case payload of
                         JDict (item # items) \<Rightarrow> Inl (AttributeError (type_name v) ''replace'')
                       | _ \<Rightarrow> Inr v)))
       \<and> ((\<forall>m\<in>set nodes. wf_node m \<and> strategy_a_template m = None)
          \<longrightarrow> extract_prompt (JDict flow) payload = langflow_prompt nodes payload
            \<and> (\<forall>r. langflow_prompt nodes payload = Inr r
                 \<longrightarrow> (\<exists>chat_input_id prompt_node template.
                        find_chat_input nodes = Inr chat_input_id \<and> truthy chat_input_id
                      \<and> find_prompt_node nodes = Inr prompt_node
                      \<and> prompt_template prompt_node = Inr template \<and> truthy template
                      \<and> process_template template payload = Inr r)))"
proof (intro conjI allI impI)
  fix pre n post v t
  assume h: "nodes = pre @ n # post
            \<and> (\<forall>m\<in>set pre. wf_node m \<and> strategy_a_template m = None)
            \<and> strategy_a_template n = Some v" and v: "v = JStr t"
  with assms have "extract_prompt (JDict flow) payload = process_template v payload"
    by (intro extract_first_match [of flow pre n post]) auto
  with v show "extract_prompt (JDict flow) payload
                    = Inr (JStr (case payload of JDict items \<Rightarrow> substituted t items | _ \<Rightarrow> t))"
    by (simp add: process_template_JStr)
next
  fix pre n post v
  assume h: "nodes = pre @ n # post
            \<and> (\<forall>m\<in>set pre. wf_node m \<and> strategy_a_template m = None)
            \<and> strategy_a_template n = Some v" and v: "v = JStr []"
  with assms have "extract_prompt (JDict flow) payload = process_template v payload"
    by (intro extract_first_match [of flow pre n post]) auto
  with v show "extract_prompt (JDict flow) payload = Inr (JStr [])"
    by (cases payload) (simp_all add: process_template_JStr substituted_empty)
next
  fix pre n post v
  assume h: "nodes = pre @ n # post
            \<and> (\<forall>m\<in>set pre. wf_node m \<and> strategy_a_template m = None)
            \<and> strategy_a_template n = Some v" and v: "\<forall>t. v \<noteq> JStr t"
  with assms have "extract_prompt (JDict flow) payload = process_template v payload"
    by (intro extract_first_match [of flow pre n post]) auto
  with v show "extract_prompt (JDict flow) payload
                    = (case payload of
                         JDict (item # items) \<Rightarrow> Inl (AttributeError (type_name v) ''replace'')
                       | _ \<Rightarrow> Inr v)"
    by (simp add: process_template_other)
next
  assume "\<forall>m\<in>set nodes. wf_node m \<and> strategy_a_template m = None"
  from loop_no_match [OF this, of payload] assms
  show "extract_prompt (JDict flow) payload = langflow_prompt nodes payload"
    by (simp add: extract_prompt_def)
next
  fix r
  assume "langflow_prompt nodes payload = Inr r"
  from langflow_Inr [OF this]
  show "\<exists>chat_input_id prompt_node template.
                        find_chat_input nodes = Inr chat_input_id \<and> truthy chat_input_id
                      \<and> find_prompt_node nodes = Inr prompt_node
                      \<and> prompt_template prompt_node = Inr template \<and> truthy template
                      \<and> process_template template payload = Inr r" .
qed

theorem strategy_order_witness:
  "extract_prompt (JDict [(''nodes'', JList ([demo_chat_node] @ demo_empty_input_node # [demo_prompt_node]))]) demo_payload
     = Inr (JStr [])
   \<and> extract_prompt (JDict [(''nodes'', JList ([demo_chat_node] @ demo_input_node # [demo_prompt_node]))]) demo_payload
     = Inr (JStr ''Say hi'')
   \<and> extract_prompt (JDict [(''nodes'', JList ([demo_chat_node] @ demo_null_input_node # [demo_prompt_node]))]) demo_payload
     = Inl (AttributeError ''NoneType'' ''replace'')
   \<and> extract_prompt (JDict [(''nodes'', JList ([demo_chat_node] @ demo_null_input_node # [demo_prompt_node]))]) (JDict [])
     = Inr JNull
   \<and> extract_prompt (JDict [(''nodes'', JList [demo_chat_node, demo_prompt_node])]) demo_payload
     = Inr (JStr ''Tell hi'')
   \<and> langflow_prompt [demo_chat_node, demo_prompt_node] demo_payload = Inr (JStr ''Tell hi'')
   \<and> find_prompt_node [demo_chat_node, demo_prompt_node] = Inr demo_prompt_node
   \<and> prompt_template demo_prompt_node = Inr (JStr ''Tell {word}'')"
  using strategy_order [of "[(''nodes'', JList ([demo_chat_node] @ demo_empty_input_node # [demo_prompt_node]))]"
      "[demo_chat_node] @ demo_empty_input_node # [demo_prompt_node]" demo_payload]
    strategy_order [of "[(''nodes'', JList ([demo_chat_node] @ demo_null_input_node # [demo_prompt_node]))]"
      "[demo_chat_node] @ demo_null_input_node # [demo_prompt_node]" demo_payload]
    strategy_order [of "[(''nodes'', JList [demo_chat_node, demo_prompt_node])]"
      "[demo_chat_node, demo_prompt_node]" demo_payload]
  by (simp add: demo_defs demo_null_input_node_def eval_defs)

subsection \<open>The search for the ChatInput and the Prompt node\<close>

lemma node_field_wf:
  assumes "wf_node (JDict kvs)"
  shows "node_field k (JDict kvs) = Inr (effective_field kvs k)"
  using assms
  by (auto simp: wf_node_def node_field_def effective_field_def dict_get_default_def dict_get_def
      split: option.splits json.splits elim!: is_dict.elims)

lemma find_chat_input_step:
  assumes "wf_node (JDict kvs)"
  shows "find_chat_input (JDict kvs # rest) =
           (if search_match ''ChatInput'' (JDict kvs) then Inr (effective_field kvs ''id'')
            else find_chat_input rest)"
  by (simp add: node_field_wf [OF assms] name_test_def search_match_def)

lemma find_prompt_node_step:
  assumes "wf_node (JDict kvs)"
  shows "find_prompt_node (JDict kvs # rest) =
           (if search_match ''Prompt'' (JDict kvs) then Inr (JDict kvs)
            else find_prompt_node rest)"
  by (simp add: node_field_wf [OF assms] name_test_def search_match_def)

text \<open>
  C3, as amended.  A node answers the search for \<^verbatim>\<open>ChatInput\<close> (for \<^verbatim>\<open>Prompt\<close>)
  when its identifier starts with that name or its type discriminator contains it
  anywhere, case-sensitively; the identifier and the type discriminator are the
  top-level ones when present and not empty, and the ones of the \<^verbatim>\<open>data\<close> mapping
  otherwise.
\<close>

theorem node_search:
  assumes "wf_node (JDict kvs)"
  shows "find_chat_input (JDict kvs # rest) =
           (if (truthy (effective_field kvs ''id'')
                  \<and> prefix ''ChatInput'' (py_str (effective_field kvs ''id'')))
               \<or> (truthy (effective_field kvs ''type'')
                  \<and> sublist ''ChatInput'' (py_str (effective_field kvs ''type'')))
            then Inr (effective_field kvs ''id'') else find_chat_input rest)
       \<and> find_prompt_node (JDict kvs # rest) =
           (if (truthy (effective_field kvs ''id'')
                  \<and> prefix ''Prompt'' (py_str (effective_field kvs ''id'')))
               \<or> (truthy (effective_field kvs ''type'')
                  \<and> sublist ''Prompt'' (py_str (effective_field kvs ''type'')))
            then Inr (JDict kvs) else find_prompt_node rest)"
  using find_chat_input_step [OF assms, of rest] find_prompt_node_step [OF assms, of rest]
  by (simp add: search_match_def)

theorem node_search_witness:
  "find_chat_input [demo_chat_node, demo_prompt_node] = Inr (JStr ''ChatInput-1'')
   \<and> find_prompt_node [demo_chat_node, demo_prompt_node] = Inr demo_prompt_node
   \<and> find_chat_input [demo_typed_node] = Inr JNull
   \<and> find_prompt_node [demo_typed_node] = Inr JNull"
  using node_search [of "[(''id'', JStr ''ChatInput-1''), (''type'', JStr ''genericNode'')]" "[demo_prompt_node]"]
    node_search [of "[(''data'', JDict [(''type'', JStr ''MyChatInputComponent'')])]" "[]"]
  by (simp add: demo_defs spec_defs eval_defs)

text \<open>
  A node whose identifier has \<^verbatim>\<open>ChatInput\<close> in the middle does not answer the
  search, nor does a node that has it only in its \<^verbatim>\<open>data\<close> mapping under a
  top-level identifier and type that lack it.
\<close>

theorem node_search_counterexample:
  "find_chat_input [demo_middle_node] = Inr JNull
   \<and> find_chat_input [demo_nested_node] = Inr JNull
   \<and> extract_prompt (JDict [(''nodes'', JList [demo_middle_node, demo_prompt_node]), (''edges'', JList [])]) demo_payload
       = Inl (ValueError not_found_msg)
   \<and> extract_prompt (JDict [(''nodes'', JList [demo_chat_node, demo_prompt_node]), (''edges'', JList [])]) demo_payload
       = Inr (JStr ''Tell hi'')"
  by (simp add: demo_defs eval_defs)

lemma find_chat_input_first:
  assumes "\<forall>m\<in>set pre. wf_node m \<and> \<not> search_match ''ChatInput'' m"
    and "wf_node (JDict kvs)" "search_match ''ChatInput'' (JDict kvs)"
  shows "find_chat_input (pre @ JDict kvs # post) = Inr (effective_field kvs ''id'')"
  using assms(1)
proof (induction pre)
  case Nil
  show ?case using assms(3) by (simp add: find_chat_input_step [OF assms(2)] del: find_chat_input.simps)
next
  case (Cons m pre)
  then obtain k where m: "m = JDict k" and "wf_node (JDict k)" "\<not> search_match ''ChatInput'' (JDict k)"
    by (cases m) (auto simp: wf_node_def)
  with Cons show ?case by (simp add: find_chat_input_step del: find_chat_input.simps)
qed

text \<open>
  C10.  When no node satisfies Strategy A and the first node that answers the
  search for \<^verbatim>\<open>ChatInput\<close> does so by its type discriminator and has no identifier
  (absent or empty at both levels), \<^verbatim>\<open>extract_prompt\<close> fails with the
  no-matching-node error, whatever nodes follow, a Prompt node with a template
  included.
\<close>

theorem chat_input_without_id:
  assumes "map_of flow ''nodes'' = Some (JList (pre @ JDict kvs # post))"
    and "\<forall>m\<in>set (pre @ JDict kvs # post). wf_node m \<and> strategy_a_template m = None"
    and "\<forall>m\<in>set pre. \<not> search_match ''ChatInput'' m"
    and "\<not> truthy (effective_field kvs ''id'')"
    and "truthy (effective_field kvs ''type'')"
    and "sublist ''ChatInput'' (py_str (effective_field kvs ''type''))"
  shows "extract_prompt (JDict flow) payload = Inl (ValueError not_found_msg)"
proof -
  have a: "input_node_loop (pre @ JDict kvs # post) payload = Inr None"
    using loop_no_match [OF assms(2)] .
  have "find_chat_input (pre @ JDict kvs # post) = Inr (effective_field kvs ''id'')"
    using assms(2,3,5,6) by (intro find_chat_input_first) (auto simp: search_match_def)
  with assms(4) have "langflow_prompt (pre @ JDict kvs # post) payload = Inl (ValueError not_found_msg)"
    by (simp add: langflow_prompt_def)
  with a assms(1) show ?thesis by (simp add: extract_prompt_def)
qed

theorem chat_input_without_id_witness:
  "extract_prompt (JDict [(''nodes'', JList ([demo_middle_node] @ demo_anonymous_chat_node # [demo_chat_node, demo_prompt_node]))]) demo_payload
     = Inl (ValueError not_found_msg)
   \<and> extract_prompt (JDict [(''nodes'', JList [demo_middle_node, demo_chat_node, demo_prompt_node])]) demo_payload
     = Inr (JStr ''Tell hi'')"
  using chat_input_without_id [of "[(''nodes'', JList ([demo_middle_node] @ demo_anonymous_chat_node # [demo_chat_node, demo_prompt_node]))]"
      "[demo_middle_node]" "[(''id'', JStr []), (''type'', JStr ''ChatInput'')]" "[demo_chat_node, demo_prompt_node]" demo_payload]
  by (simp add: demo_defs demo_anonymous_chat_node_def spec_defs eval_defs)

section \<open>The execution ledger\<close>




section \<open>The generation client\<close>





section \<open>The workflow name\<close>

lemma no_overlap:
  assumes "x \<notin> set xs" and "\<not> sublist (x # xs) (c # cs)"
  shows "\<not> prefix (x # xs) ((c # cs) @ (x # xs) @ rest)"
proof
  assume "prefix (x # xs) ((c # cs) @ (x # xs) @ rest)"
  moreover from assms(2) have np: "\<not> prefix (x # xs) (c # cs)"
    by (auto simp: sublist_Cons_right)
  ultimately obtain us where us: "x # xs = (c # cs) @ us" "prefix us ((x # xs) @ rest)"
    unfolding prefix_append by blast
  from us(1) np have "us \<noteq> []" by auto
  with us(2) obtain us' where "us = x # us'"
    by (cases us) auto
  with us(1) have "xs = cs @ x # us'" by simp
  with assms(1) show False by simp
qed

lemma replace_scan_first:
  assumes "x \<notin> set xs"
  shows "\<not> sublist (x # xs) a \<Longrightarrow>
     replace_scan (x # xs) new (a @ (x # xs) @ rest) = a @ new @ replace_scan (x # xs) new rest"
proof (induction a)
  case Nil
  then show ?case by simp
next
  case (Cons c cs)
  from no_overlap [OF assms Cons.prems, of rest]
  have "\<not> prefix (x # xs) (c # cs @ (x # xs) @ rest)" by simp
  moreover from Cons.prems have "\<not> sublist (x # xs) cs" by (auto simp: sublist_Cons_right)
  ultimately show ?case using Cons.IH by (simp del: prefix_code)
qed

lemma replace_scan_json:
  "\<not> sublist ''.json'' a \<Longrightarrow>
     replace_scan ''.json'' new (a @ ''.json'' @ rest) = a @ new @ replace_scan ''.json'' new rest"
  by (rule replace_scan_first) simp

text \<open>
  C9, as amended.  The workflow name is the base name of the path with the
  occurrences of the text \<^verbatim>\<open>.json\<close> deleted, from left to right: up to and
  including the first occurrence the name is what stands before it, and the rest
  is treated likewise.  So a base name \<^verbatim>\<open>stem.json\<close> whose stem does not contain
  \<^verbatim>\<open>.json\<close> gives the stem, and a base name without \<^verbatim>\<open>.json\<close>, whatever its
  extension, is kept as it is.  This name is the \<^verbatim>\<open>flow\<close> field of the execution
  record.
\<close>

theorem flow_name_derivation:
  "(basename flow_path = a @ ''.json'' @ rest \<and> \<not> sublist ''.json'' a
      \<longrightarrow> flow_name_of flow_path = a @ py_replace rest ''.json'' [])
   \<and> (basename flow_path = stem @ ''.json'' \<and> \<not> sublist ''.json'' stem
      \<longrightarrow> flow_name_of flow_path = stem)
   \<and> (\<not> sublist ''.json'' (basename flow_path) \<longrightarrow> flow_name_of flow_path = basename flow_path)
   \<and> (\<exists>kvs. execution_log py w (flow_name_of flow_path) input_data status output err = JDict kvs
          \<and> map_of kvs ''flow'' = Some (JStr (flow_name_of flow_path)))"
proof (intro conjI impI)
  assume "basename flow_path = a @ ''.json'' @ rest \<and> \<not> sublist ''.json'' a"
  then show "flow_name_of flow_path = a @ py_replace rest ''.json'' []"
    using replace_scan_json [of a "[]" rest] by (simp add: flow_name_of_def py_replace_def)
next
  assume "basename flow_path = stem @ ''.json'' \<and> \<not> sublist ''.json'' stem"
  then show "flow_name_of flow_path = stem"
    using replace_scan_json [of stem "[]" "[]"] by (simp add: flow_name_of_def py_replace_def)
next
  assume "\<not> sublist ''.json'' (basename flow_path)"
  then show "flow_name_of flow_path = basename flow_path"
    by (simp add: flow_name_of_def py_replace_def replace_scan_absent)
next
  show "\<exists>kvs. execution_log py w (flow_name_of flow_path) input_data status output err = JDict kvs
          \<and> map_of kvs ''flow'' = Some (JStr (flow_name_of flow_path))"
    by (simp add: execution_log_def)
qed

theorem flow_name_derivation_witness:
  "flow_name_of ''flows/greeting.json'' = ''greeting''
   \<and> flow_name_of ''flows/report.json.backup.json'' = ''report.backup''
   \<and> flow_name_of ''flows/chat.yaml'' = ''chat.yaml''"
  using flow_name_derivation [of "''flows/greeting.json''" "''greeting''" "[]" "''greeting''"]
    flow_name_derivation [of "''flows/report.json.backup.json''" "''report''" "''.backup.json''" "''report.json.backup''"]
    flow_name_derivation [of "''flows/chat.yaml''" "[]" "[]" "[]"]
  by (simp add: basename_def sublist_code py_replace_def)

text \<open>
  A second \<^verbatim>\<open>.json\<close> inside the base name is deleted too, and an extension other
  than \<^verbatim>\<open>.json\<close> is not removed.
\<close>

theorem flow_name_counterexample:
  "flow_name_of ''flows/report.json.backup.json'' = ''report.backup''
   \<and> flow_name_of ''flows/chat.yaml'' = ''chat.yaml''"
  by (simp add: flow_name_of_def basename_def py_replace_def)

section \<open>The runner\<close>













end
